theory Spec2Isabelle
  imports Main
begin

section \<open>The AzureAD component of react-aad-msal (src/AzureAD.tsx)\<close>

text \<open>
  The component is a React class component that mirrors the authentication state of an
  \<open>MsalAuthProvider\<close> in its own React state and chooses what to render from it.
  Its methods are embedded as functions that take the component and return the component
  together with the list of effects they performed on the outside world, in order.
\<close>

subsection \<open>Data\<close>

text \<open>
  Modelled from the spec: the enumeration \<open>AuthenticationState\<close> of Interfaces.ts, which is
  not among the sources. The spec (section 3) gives it the members Unauthenticated,
  Authenticated and one in-progress member.
\<close>

datatype AuthenticationState = Unauthenticated | InProgress | Authenticated

text \<open>
  The account info (\<open>IAccountInfo\<close>) is an object the component never looks into: the type
  variable \<open>'a\<close>. \<open>IAccountInfo | null\<close> is \<open>'a option\<close>; an object is truthy, \<open>null\<close> is not.
  The redux store is the type variable \<open>'s\<close>.
\<close>

record 'a IAzureADState =
  accountInfo :: "'a option"
  authenticationState :: AuthenticationState

text \<open>
  References to the four functions that the component hands to the content it renders:
  its own private \<open>login\<close> and \<open>logout\<close>, and the provider's methods \<open>login\<close> and \<open>logout\<close>
  (which \<open>render\<close> reads off \<open>this.authProvider\<close>).
\<close>

datatype action = ThisLogin | ThisLogout | AuthProviderLogin | AuthProviderLogout

record 'a IAzureADFunctionProps =
  fp_login :: action
  fp_logout :: action
  fp_authenticationState :: AuthenticationState
  fp_accountInfo :: "'a option"

text \<open>
  \<open>children\<close> has the type \<open>any\<close>, and the deprecated content functions may return any value
  at run time, so content is a JavaScript value. Numbers are the integers and NaN, which is
  enough for truthiness; \<open>JObject\<close> is any object that is not callable (a React element, an
  array of them). A function is called with the props bundle and is pure, as React asks of
  everything called while rendering.
\<close>

datatype ('a, 'e) jsval =
    JUndefined
  | JNull
  | JBool bool
  | JNum int
  | JNaN
  | JStr string
  | JObject 'e
  | JFunction "'a IAzureADFunctionProps \<Rightarrow> ('a, 'e) jsval"

fun truthy :: "('a, 'e) jsval \<Rightarrow> bool" where
  "truthy JUndefined = False"
| "truthy JNull = False"
| "truthy (JBool b) = b"
| "truthy (JNum n) = (n \<noteq> 0)"
| "truthy JNaN = False"
| "truthy (JStr s) = (s \<noteq> [])"
| "truthy (JObject e) = True"
| "truthy (JFunction f) = True"

text \<open>
  Modelled from the spec: the class \<open>MsalAuthProvider\<close>, which is not among the sources.
  Of the Provider Handle (spec, section 6) the component reads \<open>authenticationState\<close> and
  \<open>getAccountInfo()\<close>; every other method is called for its effect and appears in the
  effect list.
\<close>

record 'a MsalAuthProvider =
  provider_authenticationState :: AuthenticationState
  getAccountInfo :: "'a option"

text \<open>The deprecated account-info callback is a function of the caller; calling it is an effect.\<close>

datatype AccountInfoCallback = AccountInfoCallback

record ('a, 'e, 's) IAzureADProps =
  provider :: "'a MsalAuthProvider"
  unauthenticatedFunction :: "(action \<Rightarrow> ('a, 'e) jsval) option"
  authenticatedFunction :: "(action \<Rightarrow> ('a, 'e) jsval) option"
  accountInfoCallback :: "AccountInfoCallback option"
  reduxStore :: "'s option"
  forceLogin :: "bool option"
  children :: "('a, 'e) jsval"

text \<open>The two handlers the component registers with the provider, by identity.\<close>

datatype handler = SetAuthenticationState | OnAccountInfoChanged

datatype ('a, 's) effect =
    RegisterAuthenticationStateHandler handler
  | RegisterAcountInfoHandler handler
  | RegisterReduxStore 's
  | UnregisterAuthenticationStateHandler handler
  | UnregisterAccountInfoHandler handler
  | ProviderLogin
  | ProviderLogout
  | ConsoleWarn string
  | CallAccountInfoCallback 'a
  | CallAuthenticatedFunction action
  | CallUnauthenticatedFunction action
  | CallChildren "'a IAzureADFunctionProps"
  | Render "'a IAzureADState"

text \<open>
  Where the instance is in React's life cycle: inside its constructor, mounted, or
  unmounted. \<open>phase\<close> is React's bookkeeping, not a field of the class.
\<close>

datatype phase = Constructing | Mounted | Unmounted

record ('a, 'e, 's) AzureAD =
  props :: "('a, 'e, 's) IAzureADProps"
  state :: "'a IAzureADState"
  phase :: phase

type_synonym ('a, 'e, 's) operation =
  "('a, 'e, 's) AzureAD \<Rightarrow> ('a, 'e, 's) AzureAD \<times> ('a, 's) effect list"

subsection \<open>React's setState\<close>

text \<open>
  \<open>this.setState(partial, callback)\<close> is React's, not the repository's. Its contract for a
  class component without \<open>shouldComponentUpdate\<close>, for an update made outside a React
  batch: on a mounted instance the partial state is merged into \<open>this.state\<close>, the component
  is rendered again (the effect \<open>Render\<close>, carrying the state that \<open>render\<close> sees; what that
  render itself logs is not listed again), and then the callback runs. Inside the
  constructor and after unmounting React ignores the call: the state stays as it is and
  the callback never runs. Inside a batch React defers the update and \<open>this.state\<close> stays
  stale until the batch ends; that is \<open>enqueueSetState\<close> and \<open>flushBatch\<close> below.
\<close>

definition setState ::
  "('a IAzureADState \<Rightarrow> 'a IAzureADState) \<Rightarrow> ('a, 'e, 's) operation \<Rightarrow> ('a, 'e, 's) operation" where
  "setState partial callback this =
     (case phase this of
        Mounted \<Rightarrow>
          (let this' = this\<lparr>state := partial (state this)\<rparr>;
               (this'', es) = callback this'
           in (this'', Render (state this') # es))
      | _ \<Rightarrow> (this, []))"

definition no_callback :: "('a, 'e, 's) operation" where
  "no_callback this = (this, [])"

subsection \<open>The methods of the class\<close>

definition login :: "('a, 'e, 's) operation" where
  "login this = (this, [ProviderLogin])"

definition logout :: "('a, 'e, 's) operation" where
  "logout this =
     (if authenticationState (state this) \<noteq> Authenticated then (this, [])
      else (this, [ProviderLogout]))"

text \<open>\<open>props.forceLogin\<close> is an optional boolean: truthy when it is present and true.\<close>

fun is_true :: "bool option \<Rightarrow> bool" where
  "is_true None = False"
| "is_true (Some b) = b"

definition setAuthenticationState :: "AuthenticationState \<Rightarrow> ('a, 'e, 's) operation" where
  "setAuthenticationState newState this =
     (if newState \<noteq> authenticationState (state this) then
        setState (\<lambda>s. s\<lparr>authenticationState := newState\<rparr>)
          (\<lambda>this'. if newState = Unauthenticated \<and> is_true (forceLogin (props this')) then login this'
                    else (this', []))
          this
      else (this, []))"

definition accountInfoCallback_warning :: string where
  "accountInfoCallback_warning =
     ''Warning! The accountInfoCallback callback has been deprecated and will be removed in a future release.''"

definition onAccountInfoChanged :: "'a \<Rightarrow> ('a, 'e, 's) operation" where
  "onAccountInfoChanged newAccountInfo this =
     (let callback = accountInfoCallback (props this);
          (this', es) = setState (\<lambda>s. s\<lparr>accountInfo := Some newAccountInfo\<rparr>) no_callback this
      in case callback of
           Some cb \<Rightarrow>
             (this', es @ [ConsoleWarn accountInfoCallback_warning,
                           CallAccountInfoCallback newAccountInfo])
         | None \<Rightarrow> (this', es))"

text \<open>
  The field initialisers (\<open>authProvider\<close>, \<open>state\<close>) run first, then the body of the
  constructor.
\<close>

definition initial :: "('a, 'e, 's) IAzureADProps \<Rightarrow> ('a, 'e, 's) AzureAD" where
  "initial p =
     \<lparr>props = p,
      state = \<lparr>accountInfo = getAccountInfo (provider p),
               authenticationState = provider_authenticationState (provider p)\<rparr>,
      phase = Constructing\<rparr>"

definition registrations :: "('a, 'e, 's) IAzureADProps \<Rightarrow> ('a, 's) effect list" where
  "registrations p =
     [RegisterAuthenticationStateHandler SetAuthenticationState,
      RegisterAcountInfoHandler OnAccountInfoChanged]
     @ (case reduxStore p of Some store \<Rightarrow> [RegisterReduxStore store] | None \<Rightarrow> [])"

definition constructor ::
  "('a, 'e, 's) IAzureADProps \<Rightarrow> ('a, 'e, 's) AzureAD \<times> ('a, 's) effect list" where
  "constructor p =
     (let this = initial p;
          (this', es) =
            (if authenticationState (state this) = Authenticated then
               (case accountInfo (state this) of
                  Some info \<Rightarrow> onAccountInfoChanged info this
                | None \<Rightarrow> (this, []))
             else if authenticationState (state this) = Unauthenticated then
               (if is_true (forceLogin p) then login this else (this, []))
             else (this, []))
      in (this', registrations p @ es))"

definition componentWillUnmount :: "('a, 'e, 's) operation" where
  "componentWillUnmount this =
     (this, [UnregisterAuthenticationStateHandler SetAuthenticationState,
             UnregisterAccountInfoHandler OnAccountInfoChanged])"

text \<open>
  React's side of the life cycle: after the constructor the instance is mounted (with its
  first render); unmounting calls \<open>componentWillUnmount\<close> and retires the instance.
\<close>

definition mount :: "('a, 'e, 's) operation" where
  "mount this = (this\<lparr>phase := Mounted\<rparr>, [Render (state this)])"

definition unmount :: "('a, 'e, 's) operation" where
  "unmount this =
     (let (this', es) = componentWillUnmount this in (this'\<lparr>phase := Unmounted\<rparr>, es))"

subsection \<open>Rendering\<close>

type_synonym ('a, 'e, 's) content = "('a, 'e) jsval \<times> ('a, 's) effect list"

definition getChildrenOrFunction ::
  "('a, 'e) jsval \<Rightarrow> 'a IAzureADFunctionProps \<Rightarrow> ('a, 'e, 's) content" where
  "getChildrenOrFunction chn fprops =
     (if truthy chn then
        (case chn of
           JFunction f \<Rightarrow> (f fprops, [CallChildren fprops])
         | _ \<Rightarrow> (chn, []))
      else (JNull, []))"

definition childrenFunctionProps :: "('a, 'e, 's) AzureAD \<Rightarrow> 'a IAzureADFunctionProps" where
  "childrenFunctionProps this =
     \<lparr>fp_login = AuthProviderLogin,
      fp_logout = AuthProviderLogout,
      fp_authenticationState = authenticationState (state this),
      fp_accountInfo = accountInfo (state this)\<rparr>"

definition authenticatedFunction_warning :: string where
  "authenticatedFunction_warning =
     ''Warning! The authenticatedFunction callback has been deprecated and will be removed in a future release.''"

definition unauthenticatedFunction_warning :: string where
  "unauthenticatedFunction_warning =
     ''Warning! The unauthenticatedFunction callback has been deprecated and will be removed in a future release.''"

definition render :: "('a, 'e, 's) AzureAD \<Rightarrow> ('a, 'e, 's) content" where
  "render this =
     (case authenticationState (state this) of
        Authenticated \<Rightarrow>
          (case authenticatedFunction (props this) of
             Some f \<Rightarrow>
               (let authFunctionResult = f ThisLogout in
                if truthy authFunctionResult then
                  (authFunctionResult,
                   [CallAuthenticatedFunction ThisLogout, ConsoleWarn authenticatedFunction_warning])
                else
                  (let (r, es) = getChildrenOrFunction (children (props this))
                                   (childrenFunctionProps this)
                   in (r, CallAuthenticatedFunction ThisLogout # es)))
           | None \<Rightarrow> getChildrenOrFunction (children (props this)) (childrenFunctionProps this))
      | Unauthenticated \<Rightarrow>
          (case unauthenticatedFunction (props this) of
             Some f \<Rightarrow>
               (let r = f ThisLogin in
                (if truthy r then r else JNull,
                 [ConsoleWarn unauthenticatedFunction_warning, CallUnauthenticatedFunction ThisLogin]))
           | None \<Rightarrow> getChildrenOrFunction (children (props this)) (childrenFunctionProps this))
      | _ \<Rightarrow> (JNull, []))"

subsection \<open>The life of an instance\<close>

text \<open>
  What happens to a mounted instance, one thing at a time: the provider delivers a
  notification to one of the two registered handlers, or the rendered content invokes one
  of the four functions it was handed. The provider's own \<open>login\<close> and \<open>logout\<close> go to the
  provider without passing through the component.
\<close>

datatype 'a event =
    NotifyAuthenticationState AuthenticationState
  | NotifyAccountInfo 'a
  | Invoke action

fun step :: "'a event \<Rightarrow> ('a, 'e, 's) operation" where
  "step (NotifyAuthenticationState newState) this = setAuthenticationState newState this"
| "step (NotifyAccountInfo newAccountInfo) this = onAccountInfoChanged newAccountInfo this"
| "step (Invoke ThisLogin) this = login this"
| "step (Invoke ThisLogout) this = logout this"
| "step (Invoke AuthProviderLogin) this = (this, [ProviderLogin])"
| "step (Invoke AuthProviderLogout) this = (this, [ProviderLogout])"

fun run :: "'a event list \<Rightarrow> ('a, 'e, 's) operation" where
  "run [] this = (this, [])"
| "run (ev # evs) this =
     (let (this', es) = step ev this;
          (this'', es') = run evs this'
      in (this'', es @ es'))"

text \<open>A whole life: construction, mounting, a history of events, unmounting.\<close>

definition lifetime ::
  "('a, 'e, 's) IAzureADProps \<Rightarrow> 'a event list \<Rightarrow> ('a, 'e, 's) AzureAD \<times> ('a, 's) effect list" where
  "lifetime p evs =
     (let (this0, es0) = constructor p;
          (this1, es1) = mount this0;
          (this2, es2) = run evs this1;
          (this3, es3) = unmount this2
      in (this3, es0 @ es1 @ es2 @ es3))"

subsection \<open>Notifications inside one React batch\<close>

text \<open>
  When several calls of \<open>setState\<close> fall into one React batch (inside a React event handler,
  or anywhere under automatic batching), React queues each update with its callback and
  leaves \<open>this.state\<close> as it was. When the batch ends, the queued partial states are merged
  in order, the component is rendered once, and the callbacks run in order. On an instance
  that is not mounted the call is ignored, as outside a batch.
\<close>

type_synonym ('a, 'e, 's) update =
  "('a IAzureADState \<Rightarrow> 'a IAzureADState) \<times> ('a, 'e, 's) operation"

record ('a, 'e, 's) batch =
  target :: "('a, 'e, 's) AzureAD"
  queue :: "('a, 'e, 's) update list"

definition enqueueSetState ::
  "('a IAzureADState \<Rightarrow> 'a IAzureADState) \<Rightarrow> ('a, 'e, 's) operation \<Rightarrow>
   ('a, 'e, 's) batch \<Rightarrow> ('a, 'e, 's) batch" where
  "enqueueSetState partial callback b =
     (case phase (target b) of
        Mounted \<Rightarrow> b\<lparr>queue := queue b @ [(partial, callback)]\<rparr>
      | _ \<Rightarrow> b)"

text \<open>
  \<open>setAuthenticationState\<close> (lines 139 to 147) called inside a batch: the same body, with
  \<open>this.state\<close> the state of the instance at the start of the batch and \<open>this.setState\<close>
  queueing.
\<close>

definition setAuthenticationState_batched ::
  "AuthenticationState \<Rightarrow> ('a, 'e, 's) batch \<Rightarrow> ('a, 'e, 's) batch" where
  "setAuthenticationState_batched newState b =
     (if newState \<noteq> authenticationState (state (target b)) then
        enqueueSetState (\<lambda>s. s\<lparr>authenticationState := newState\<rparr>)
          (\<lambda>this'. if newState = Unauthenticated \<and> is_true (forceLogin (props this')) then login this'
                    else (this', []))
          b
      else b)"

fun runCallbacks :: "('a, 'e, 's) update list \<Rightarrow> ('a, 'e, 's) operation" where
  "runCallbacks [] this = (this, [])"
| "runCallbacks ((partial, callback) # us) this =
     (let (this', es) = callback this;
          (this'', es') = runCallbacks us this'
      in (this'', es @ es'))"

definition flushBatch ::
  "('a, 'e, 's) batch \<Rightarrow> ('a, 'e, 's) AzureAD \<times> ('a, 's) effect list" where
  "flushBatch b =
     (case queue b of
        [] \<Rightarrow> (target b, [])
      | u # us \<Rightarrow>
          (let this' = (target b)\<lparr>state := fold fst (queue b) (state (target b))\<rparr>;
               (this'', es) = runCallbacks (queue b) this'
           in (this'', Render (state this') # es)))"

text \<open>The provider delivers a list of state-change notifications within one batch.\<close>

definition deliverBatch :: "AuthenticationState list \<Rightarrow> ('a, 'e, 's) operation" where
  "deliverBatch ns this =
     flushBatch (fold setAuthenticationState_batched ns \<lparr>target = this, queue = []\<rparr>)"

subsection \<open>Observations\<close>

text \<open>\<open>typeof v == 'function'\<close>.\<close>

fun callable :: "('a, 'e) jsval \<Rightarrow> bool" where
  "callable (JFunction f) = True"
| "callable v = False"

text \<open>The effects that create or release a subscription with the provider.\<close>

fun is_subscription :: "('a, 's) effect \<Rightarrow> bool" where
  "is_subscription (RegisterAuthenticationStateHandler h) = True"
| "is_subscription (RegisterAcountInfoHandler h) = True"
| "is_subscription (UnregisterAuthenticationStateHandler h) = True"
| "is_subscription (UnregisterAccountInfoHandler h) = True"
| "is_subscription e = False"

subsection \<open>Examples\<close>

text \<open>
  A caller's configuration with every optional property present, over a provider in a
  given state, and a mounted instance of it.
\<close>

definition sample_props ::
  "AuthenticationState \<Rightarrow> nat option \<Rightarrow> (nat, string, nat) IAzureADProps" where
  "sample_props st info =
     \<lparr>provider = \<lparr>provider_authenticationState = st, getAccountInfo = info\<rparr>,
      unauthenticatedFunction = Some (\<lambda>a. JBool False),
      authenticatedFunction = Some (\<lambda>a. JObject ''legacy''),
      accountInfoCallback = Some AccountInfoCallback,
      reduxStore = Some 7,
      forceLogin = Some True,
      children = JFunction (\<lambda>fp. JObject ''content'')\<rparr>"

definition sample_mounted ::
  "AuthenticationState \<Rightarrow> nat option \<Rightarrow> (nat, string, nat) AzureAD" where
  "sample_mounted st info = fst (mount (fst (constructor (sample_props st info))))"

section \<open>Properties\<close>

subsection \<open>What the handlers and events leave alone\<close>

lemma setAuthenticationState_keeps:
  "props (fst (setAuthenticationState newState this)) = props this"
  "phase (fst (setAuthenticationState newState this)) = phase this"
  by (simp_all add: setAuthenticationState_def setState_def login_def Let_def split: phase.splits)

lemma onAccountInfoChanged_keeps:
  "props (fst (onAccountInfoChanged v this)) = props this"
  "phase (fst (onAccountInfoChanged v this)) = phase this"
  by (simp_all add: onAccountInfoChanged_def setState_def no_callback_def
      split: phase.splits option.splits)

lemma step_keeps:
  "props (fst (step ev this)) = props this"
  "phase (fst (step ev this)) = phase this"
  by (induction ev this rule: step.induct)
    (simp_all add: setAuthenticationState_keeps onAccountInfoChanged_keeps login_def logout_def)

lemma run_keeps:
  "props (fst (run evs this)) = props this \<and> phase (fst (run evs this)) = phase this"
proof (induction evs arbitrary: this)
  case Nil
  show ?case by simp
next
  case (Cons ev evs)
  obtain t es where s: "step ev this = (t, es)" by (cases "step ev this")
  have "props t = props this" "phase t = phase this"
    using step_keeps [of ev this] s by simp_all
  with Cons [of t] s show ?case by (simp add: split_beta)
qed

lemma run_append:
  "run (xs @ ys) this =
     (fst (run ys (fst (run xs this))), snd (run xs this) @ snd (run ys (fst (run xs this))))"
  by (induction xs arbitrary: this) (simp_all add: split_beta)

lemma setAuthenticationState_sets:
  "phase this = Mounted \<Longrightarrow>
     authenticationState (state (fst (setAuthenticationState newState this))) = newState"
  by (simp add: setAuthenticationState_def setState_def login_def Let_def)

lemma step_no_subscription: "filter is_subscription (snd (step ev this)) = []"
  by (induction ev this rule: step.induct)
    (simp_all add: setAuthenticationState_def onAccountInfoChanged_def setState_def
      no_callback_def login_def logout_def Let_def split: phase.splits option.splits)

lemma run_no_subscription: "filter is_subscription (snd (run evs this)) = []"
  by (induction evs arbitrary: this) (simp_all add: split_beta step_no_subscription)

lemma constructor_fst: "fst (constructor p) = initial p"
  by (simp add: constructor_def initial_def onAccountInfoChanged_def setState_def login_def
      Let_def split: option.splits)

lemma constructor_subscriptions:
  "filter is_subscription (snd (constructor p)) =
     [RegisterAuthenticationStateHandler SetAuthenticationState,
      RegisterAcountInfoHandler OnAccountInfoChanged]"
  by (simp add: constructor_def initial_def registrations_def onAccountInfoChanged_def
      setState_def login_def Let_def split: option.splits)

lemma unmounted_step_state:
  "phase this = Unmounted \<Longrightarrow> state (fst (step ev this)) = state this"
  by (induction ev this rule: step.induct)
    (simp_all add: setAuthenticationState_def onAccountInfoChanged_def setState_def
      login_def logout_def split: option.splits)

lemma unmounted_run_state:
  "phase this = Unmounted \<Longrightarrow> state (fst (run evs this)) = state this"
proof (induction evs arbitrary: this)
  case Nil
  show ?case by simp
next
  case (Cons ev evs)
  have "phase (fst (step ev this)) = Unmounted"
    using Cons.prems by (simp add: step_keeps)
  then have "state (fst (run evs (fst (step ev this)))) = state (fst (step ev this))"
    by (rule Cons.IH)
  then show ?case
    using Cons.prems by (simp add: split_beta unmounted_step_state)
qed

lemma lifetime_phase: "phase (fst (lifetime p evs)) = Unmounted"
  by (simp add: lifetime_def unmount_def componentWillUnmount_def split_beta)

lemma unmount_effects:
  "snd (unmount this) =
     [UnregisterAuthenticationStateHandler SetAuthenticationState,
      UnregisterAccountInfoHandler OnAccountInfoChanged]"
  by (simp add: unmount_def componentWillUnmount_def)

lemma sample_mounted_fields:
  "phase (sample_mounted st info) = Mounted"
  "props (sample_mounted st info) = sample_props st info"
  "state (sample_mounted st info) = \<lparr>accountInfo = info, authenticationState = st\<rparr>"
  by (simp_all add: sample_mounted_def mount_def constructor_fst initial_def sample_props_def)

lemma sample_props_fields:
  "forceLogin (sample_props st info) = Some True"
  "accountInfoCallback (sample_props st info) = Some AccountInfoCallback"
  "reduxStore (sample_props st info) = Some 7"
  "provider_authenticationState (provider (sample_props st info)) = st"
  "getAccountInfo (provider (sample_props st info)) = info"
  by (simp_all add: sample_props_def)

subsection \<open>The authentication-state handler\<close>



lemma deliverBatch_single:
  "deliverBatch [newState] this = setAuthenticationState newState this"
  by (cases "phase this")
    (simp_all add: deliverBatch_def flushBatch_def setAuthenticationState_batched_def
      enqueueSetState_def setAuthenticationState_def setState_def Let_def split_beta)

text \<open>
  C5. A state-change notification whose value equals the snapshot's authentication state
  returns the component as it was with no effect at all (no re-render, no login, whatever
  \<open>forceLogin\<close> and the value are), inside a batch as well as outside. On a mounted instance,
  after any history of events delivered one at a time, each outside a batch or in a batch
  of its own so that its update is applied before the next arrives, and ending with a
  state-change notification, the snapshot's authentication state is the value that
  notification delivered. Nothing is said of several notifications within one batch.
\<close>

theorem setAuthenticationState_tracks:
  "(newState = authenticationState (state this) \<longrightarrow>
      setAuthenticationState newState this = (this, [])) \<and>
   (phase this = Mounted \<longrightarrow>
      authenticationState
        (state (fst (run (evs @ [NotifyAuthenticationState newState]) this))) = newState) \<and>
   (newState = authenticationState (state (target b)) \<longrightarrow>
      setAuthenticationState_batched newState b = b) \<and>
   deliverBatch [newState] this = setAuthenticationState newState this"
proof -
  have "phase (fst (run evs this)) = phase this" by (simp add: run_keeps)
  then have "phase this = Mounted \<longrightarrow>
      authenticationState
        (state (fst (run (evs @ [NotifyAuthenticationState newState]) this))) = newState"
    by (simp add: run_append setAuthenticationState_sets)
  moreover have "newState = authenticationState (state this) \<longrightarrow>
      setAuthenticationState newState this = (this, [])"
    by (simp add: setAuthenticationState_def)
  moreover have "newState = authenticationState (state (target b)) \<longrightarrow>
      setAuthenticationState_batched newState b = b"
    by (simp add: setAuthenticationState_batched_def)
  ultimately show ?thesis
    using deliverBatch_single [of newState this] by blast
qed

theorem setAuthenticationState_tracks_witness:
  "Unauthenticated = authenticationState (state (sample_mounted Unauthenticated None)) \<and>
   setAuthenticationState Unauthenticated (sample_mounted Unauthenticated None) =
     (sample_mounted Unauthenticated None, []) \<and>
   phase (sample_mounted Unauthenticated None) = Mounted \<and>
   authenticationState
     (state (fst (run ([NotifyAuthenticationState Authenticated, NotifyAccountInfo 5,
                        Invoke ThisLogout, NotifyAuthenticationState InProgress]
                       @ [NotifyAuthenticationState Unauthenticated])
                  (sample_mounted Unauthenticated None)))) = Unauthenticated \<and>
   Unauthenticated =
     authenticationState
       (state (target \<lparr>target = sample_mounted Unauthenticated None, queue = []\<rparr>)) \<and>
   setAuthenticationState_batched Unauthenticated
       \<lparr>target = sample_mounted Unauthenticated None, queue = []\<rparr> =
     \<lparr>target = sample_mounted Unauthenticated None, queue = []\<rparr> \<and>
   deliverBatch [Unauthenticated] (sample_mounted Unauthenticated None) =
     setAuthenticationState Unauthenticated (sample_mounted Unauthenticated None)"
  using setAuthenticationState_tracks
    [of Unauthenticated "sample_mounted Unauthenticated None"
      "[NotifyAuthenticationState Authenticated, NotifyAccountInfo 5,
        Invoke ThisLogout, NotifyAuthenticationState InProgress]"
      "\<lparr>target = sample_mounted Unauthenticated None, queue = []\<rparr>"]
  by (simp add: sample_mounted_fields)

text \<open>
  Within one batch the snapshot need not end on the last value delivered. On a mounted
  instance whose snapshot is \<open>Unauthenticated\<close>, with \<open>forceLogin\<close> set, the provider delivers
  \<open>Authenticated\<close> and then \<open>Unauthenticated\<close> in one batch: the first call queues its update,
  the second compares with the snapshot that is still \<open>Unauthenticated\<close> and does nothing.
  The batch ends with the snapshot \<open>Authenticated\<close>, one render, and no login.
\<close>

theorem deliverBatch_stale_counterexample:
  "phase (sample_mounted Unauthenticated None) = Mounted \<and>
   authenticationState (state (sample_mounted Unauthenticated None)) = Unauthenticated \<and>
   is_true (forceLogin (props (sample_mounted Unauthenticated None))) \<and>
   deliverBatch [Authenticated, Unauthenticated] (sample_mounted Unauthenticated None) =
     ((sample_mounted Unauthenticated None)
        \<lparr>state := \<lparr>accountInfo = None, authenticationState = Authenticated\<rparr>\<rparr>,
      [Render \<lparr>accountInfo = None, authenticationState = Authenticated\<rparr>]) \<and>
   authenticationState
     (state (fst (deliverBatch [Authenticated, Unauthenticated]
                    (sample_mounted Unauthenticated None)))) \<noteq>
     last [Authenticated, Unauthenticated]"
  by (simp add: deliverBatch_def flushBatch_def setAuthenticationState_batched_def
      enqueueSetState_def sample_mounted_fields sample_props_fields Let_def)

subsection \<open>The account-info handler\<close>



subsection \<open>Subscriptions\<close>

text \<open>
  C3. Among the effects of the constructor the subscriptions are exactly one registration
  of \<open>setAuthenticationState\<close> on the state channel and one of \<open>onAccountInfoChanged\<close> on the
  account-info channel; unmounting unregisters exactly these two handlers, once each; over
  a whole life, whatever the events in between, nothing else is registered or unregistered.
  A notification that arrives after unmounting (the handlers are total: they return) leaves
  the snapshot as it was.
\<close>

theorem subscription_lifecycle:
  "filter is_subscription (snd (constructor p)) =
     [RegisterAuthenticationStateHandler SetAuthenticationState,
      RegisterAcountInfoHandler OnAccountInfoChanged] \<and>
   snd (unmount this) =
     [UnregisterAuthenticationStateHandler SetAuthenticationState,
      UnregisterAccountInfoHandler OnAccountInfoChanged] \<and>
   filter is_subscription (snd (lifetime p evs)) =
     [RegisterAuthenticationStateHandler SetAuthenticationState,
      RegisterAcountInfoHandler OnAccountInfoChanged,
      UnregisterAuthenticationStateHandler SetAuthenticationState,
      UnregisterAccountInfoHandler OnAccountInfoChanged] \<and>
   state (fst (setAuthenticationState newState (fst (lifetime p evs)))) =
     state (fst (lifetime p evs)) \<and>
   state (fst (onAccountInfoChanged newAccountInfo (fst (lifetime p evs)))) =
     state (fst (lifetime p evs)) \<and>
   state (fst (run late (fst (lifetime p evs)))) = state (fst (lifetime p evs))"
proof -
  note a = unmount_effects
  have b: "filter is_subscription (snd (lifetime p evs)) =
     [RegisterAuthenticationStateHandler SetAuthenticationState,
      RegisterAcountInfoHandler OnAccountInfoChanged,
      UnregisterAuthenticationStateHandler SetAuthenticationState,
      UnregisterAccountInfoHandler OnAccountInfoChanged]"
    by (simp add: lifetime_def split_beta constructor_subscriptions run_no_subscription a
        mount_def)
  have u: "phase (fst (lifetime p evs)) = Unmounted" by (rule lifetime_phase)
  have c: "state (fst (setAuthenticationState newState (fst (lifetime p evs)))) =
     state (fst (lifetime p evs))"
    using unmounted_step_state [OF u, of "NotifyAuthenticationState newState"] by simp
  have d: "state (fst (onAccountInfoChanged newAccountInfo (fst (lifetime p evs)))) =
     state (fst (lifetime p evs))"
    using unmounted_step_state [OF u, of "NotifyAccountInfo newAccountInfo"] by simp
  have e: "state (fst (run late (fst (lifetime p evs)))) = state (fst (lifetime p evs))"
    by (rule unmounted_run_state [OF u])
  show ?thesis
    by (intro conjI) (rule constructor_subscriptions a b c d e)+
qed

theorem subscription_lifecycle_witness:
  "filter is_subscription
     (snd (lifetime (sample_props Unauthenticated None)
        [NotifyAuthenticationState Authenticated, NotifyAccountInfo 5])) =
     [RegisterAuthenticationStateHandler SetAuthenticationState,
      RegisterAcountInfoHandler OnAccountInfoChanged,
      UnregisterAuthenticationStateHandler SetAuthenticationState,
      UnregisterAccountInfoHandler OnAccountInfoChanged] \<and>
   state (fst (setAuthenticationState InProgress
     (fst (lifetime (sample_props Unauthenticated None)
        [NotifyAuthenticationState Authenticated, NotifyAccountInfo 5])))) =
     state (fst (lifetime (sample_props Unauthenticated None)
        [NotifyAuthenticationState Authenticated, NotifyAccountInfo 5]))"
  using subscription_lifecycle
    [of "sample_props Unauthenticated None" "sample_mounted Unauthenticated None"
      "[NotifyAuthenticationState Authenticated, NotifyAccountInfo 5]" InProgress 5 "[]"]
  by simp

subsection \<open>Logout\<close>

text \<open>
  C6. \<open>logout\<close> on a snapshot whose authentication state is not \<open>Authenticated\<close> returns the
  component unchanged and performs no effect, so the provider's logout is not called; on an
  \<open>Authenticated\<close> snapshot its one effect is the call of the provider's logout.
\<close>

theorem logout_guarded:
  "(authenticationState (state this) \<noteq> Authenticated \<longrightarrow> logout this = (this, [])) \<and>
   (authenticationState (state this) = Authenticated \<longrightarrow> logout this = (this, [ProviderLogout]))"
  by (simp add: logout_def)

theorem logout_guarded_witness:
  "authenticationState (state (sample_mounted Unauthenticated None)) \<noteq> Authenticated \<and>
   logout (sample_mounted Unauthenticated None) = (sample_mounted Unauthenticated None, []) \<and>
   authenticationState (state (sample_mounted Authenticated (Some 3))) = Authenticated \<and>
   logout (sample_mounted Authenticated (Some 3)) =
     (sample_mounted Authenticated (Some 3), [ProviderLogout])"
  using logout_guarded [of "sample_mounted Unauthenticated None"]
    logout_guarded [of "sample_mounted Authenticated (Some 3)"]
  by (simp add: sample_mounted_fields)

subsection \<open>Construction\<close>

lemma registrations_count:
  "count_list (registrations p) ProviderLogin = 0"
  "count_list (registrations p) (CallAccountInfoCallback info) = 0"
  by (simp_all add: registrations_def split: option.splits)

text \<open>
  C2. The constructor leaves the snapshot at the provider's current authentication state
  and account info. When that state is \<open>Authenticated\<close> and the account info is present, what
  the constructor does after the registrations is exactly one run of
  \<open>onAccountInfoChanged\<close> on that info (so a supplied \<open>accountInfoCallback\<close> is called once
  with it). When the state is \<open>Unauthenticated\<close> and \<open>forceLogin\<close> is set, the provider's login
  is called exactly once, after the registrations.
\<close>

theorem constructor_initialises:
  "state (fst (constructor p)) =
     \<lparr>accountInfo = getAccountInfo (provider p),
      authenticationState = provider_authenticationState (provider p)\<rparr> \<and>
   (provider_authenticationState (provider p) = Authenticated \<and>
    getAccountInfo (provider p) = Some info \<longrightarrow>
      constructor p =
        (fst (onAccountInfoChanged info (initial p)),
         registrations p @ snd (onAccountInfoChanged info (initial p))) \<and>
      count_list (snd (constructor p)) (CallAccountInfoCallback info) =
        (case accountInfoCallback p of Some cb \<Rightarrow> 1 | None \<Rightarrow> 0)) \<and>
   (provider_authenticationState (provider p) = Unauthenticated \<and> is_true (forceLogin p) \<longrightarrow>
      constructor p = (initial p, registrations p @ [ProviderLogin]) \<and>
      count_list (snd (constructor p)) ProviderLogin = 1)"
proof (intro conjI impI)
  show "state (fst (constructor p)) =
     \<lparr>accountInfo = getAccountInfo (provider p),
      authenticationState = provider_authenticationState (provider p)\<rparr>"
    by (simp add: constructor_fst initial_def)
next
  assume a: "provider_authenticationState (provider p) = Authenticated \<and>
    getAccountInfo (provider p) = Some info"
  then show c: "constructor p =
        (fst (onAccountInfoChanged info (initial p)),
         registrations p @ snd (onAccountInfoChanged info (initial p)))"
    by (simp add: constructor_def initial_def split_beta Let_def)
  have "snd (onAccountInfoChanged info (initial p)) =
      (case accountInfoCallback p of
         Some cb \<Rightarrow> [ConsoleWarn accountInfoCallback_warning, CallAccountInfoCallback info]
       | None \<Rightarrow> [])"
    by (simp add: onAccountInfoChanged_def setState_def initial_def split: option.splits)
  then show "count_list (snd (constructor p)) (CallAccountInfoCallback info) =
        (case accountInfoCallback p of Some cb \<Rightarrow> 1 | None \<Rightarrow> 0)"
    by (simp add: c registrations_count split: option.splits)
next
  assume a: "provider_authenticationState (provider p) = Unauthenticated \<and> is_true (forceLogin p)"
  then show c: "constructor p = (initial p, registrations p @ [ProviderLogin])"
    by (simp add: constructor_def initial_def login_def Let_def)
  show "count_list (snd (constructor p)) ProviderLogin = 1"
    by (simp add: c registrations_count)
qed

theorem constructor_initialises_witness:
  "provider_authenticationState (provider (sample_props Authenticated (Some 3))) = Authenticated \<and>
   getAccountInfo (provider (sample_props Authenticated (Some 3))) = Some 3 \<and>
   state (fst (constructor (sample_props Authenticated (Some 3)))) =
     \<lparr>accountInfo = Some 3, authenticationState = Authenticated\<rparr> \<and>
   count_list (snd (constructor (sample_props Authenticated (Some 3)))) (CallAccountInfoCallback 3) = 1 \<and>
   provider_authenticationState (provider (sample_props Unauthenticated None)) = Unauthenticated \<and>
   is_true (forceLogin (sample_props Unauthenticated None)) \<and>
   constructor (sample_props Unauthenticated None) =
     (initial (sample_props Unauthenticated None),
      registrations (sample_props Unauthenticated None) @ [ProviderLogin]) \<and>
   count_list (snd (constructor (sample_props Unauthenticated None))) ProviderLogin = 1"
  using constructor_initialises [of "sample_props Authenticated (Some 3)" 3]
    constructor_initialises [of "sample_props Unauthenticated None"]
  by (simp (no_asm_use) add: sample_props_fields) blast

subsection \<open>Content resolution\<close>

text \<open>
  C10. \<open>getChildrenOrFunction\<close>: every falsy value (the empty string, 0, NaN, false, null,
  undefined) resolves to \<open>null\<close>; a function is called with the props bundle and its result
  is returned as it is, truthy or not; every other truthy value is returned unchanged.
\<close>

theorem getChildrenOrFunction_resolution:
  fixes chn :: "('a, 'e) jsval"
    and f :: "'a IAzureADFunctionProps \<Rightarrow> ('a, 'e) jsval"
    and none :: "('a, 'e, 's) content"
  defines "none \<equiv> (JNull, [])"
  shows "(\<not> truthy chn \<longrightarrow> getChildrenOrFunction chn fprops = none) \<and>
    getChildrenOrFunction (JFunction f) fprops =
      (f fprops, [CallChildren fprops :: ('a, 's) effect]) \<and>
    (truthy chn \<and> \<not> callable chn \<longrightarrow>
       getChildrenOrFunction chn fprops = (chn, [] :: ('a, 's) effect list)) \<and>
    getChildrenOrFunction (JStr []) fprops = none \<and>
    getChildrenOrFunction (JNum 0) fprops = none \<and>
    getChildrenOrFunction (JBool False) fprops = none \<and>
    getChildrenOrFunction JNull fprops = none \<and>
    getChildrenOrFunction JUndefined fprops = none \<and>
    getChildrenOrFunction JNaN fprops = none"
  unfolding none_def by (cases chn) (simp_all add: getChildrenOrFunction_def)

theorem getChildrenOrFunction_resolution_witness:
  "\<not> truthy (JStr [] :: (nat, string) jsval) \<and>
   getChildrenOrFunction (JStr [] :: (nat, string) jsval)
       (childrenFunctionProps (sample_mounted Authenticated (Some 3))) =
     (JNull, [] :: (nat, nat) effect list) \<and>
   getChildrenOrFunction (JFunction (\<lambda>fp. JBool False) :: (nat, string) jsval)
       (childrenFunctionProps (sample_mounted Authenticated (Some 3))) =
     (JBool False,
      [CallChildren (childrenFunctionProps (sample_mounted Authenticated (Some 3)))
        :: (nat, nat) effect]) \<and>
   truthy (JObject ''content'' :: (nat, string) jsval) \<and>
   \<not> callable (JObject ''content'' :: (nat, string) jsval) \<and>
   getChildrenOrFunction (JObject ''content'' :: (nat, string) jsval)
       (childrenFunctionProps (sample_mounted Authenticated (Some 3))) =
     (JObject ''content'', [] :: (nat, nat) effect list)"
  using getChildrenOrFunction_resolution
      [where ?'s = nat, of "JStr []"
        "childrenFunctionProps (sample_mounted Authenticated (Some 3))" "\<lambda>fp. JBool False"]
    getChildrenOrFunction_resolution
      [where ?'s = nat, of "JObject ''content''"
        "childrenFunctionProps (sample_mounted Authenticated (Some 3))" "\<lambda>fp. JBool False"]
  by simp

lemma getChildrenOrFunction_no_warning:
  "ConsoleWarn w \<notin> set (snd (getChildrenOrFunction chn fprops))"
  by (cases chn) (simp_all add: getChildrenOrFunction_def)

text \<open>
  C7. Rendering an \<open>Authenticated\<close> snapshot. A supplied \<open>authenticatedFunction\<close> is called
  with the component's \<open>logout\<close>; when its result is truthy that result is returned after
  one deprecation warning, and the children are not consulted; when its result is falsy,
  or no such function was supplied, the result is that of \<open>getChildrenOrFunction\<close> on the
  children and the bundle of account info, authentication state and the provider's login
  and logout. The deprecation warning is logged exactly when the function was supplied and
  returned a truthy value.
\<close>

theorem render_Authenticated:
  fixes this :: "('a, 'e, 's) AzureAD" and generic :: "('a, 'e, 's) content"
  defines "generic \<equiv>
    getChildrenOrFunction (children (props this))
      \<lparr>fp_login = AuthProviderLogin, fp_logout = AuthProviderLogout,
       fp_authenticationState = Authenticated, fp_accountInfo = accountInfo (state this)\<rparr>"
  assumes "authenticationState (state this) = Authenticated"
  shows "(authenticatedFunction (props this) = Some f \<and> truthy (f ThisLogout) \<longrightarrow>
       render this =
         (f ThisLogout,
          [CallAuthenticatedFunction ThisLogout, ConsoleWarn authenticatedFunction_warning])) \<and>
    (authenticatedFunction (props this) = Some f \<and> \<not> truthy (f ThisLogout) \<longrightarrow>
       render this = (fst generic, CallAuthenticatedFunction ThisLogout # snd generic)) \<and>
    (authenticatedFunction (props this) = None \<longrightarrow> render this = generic) \<and>
    (ConsoleWarn authenticatedFunction_warning \<in> set (snd (render this)) \<longleftrightarrow>
       (\<exists>g. authenticatedFunction (props this) = Some g \<and> truthy (g ThisLogout)))"
proof -
  have g: "getChildrenOrFunction (children (props this)) (childrenFunctionProps this) = generic"
    using assms(2) by (simp add: generic_def childrenFunctionProps_def)
  have w: "ConsoleWarn authenticatedFunction_warning \<notin> set (snd generic)"
    unfolding generic_def by (rule getChildrenOrFunction_no_warning)
  show ?thesis
  proof (cases "authenticatedFunction (props this)")
    case None
    then show ?thesis using assms(2) w by (simp add: render_def g)
  next
    case (Some h)
    then show ?thesis using assms(2) w
      by (cases "truthy (h ThisLogout)") (simp_all add: render_def g split_beta)
  qed
qed

theorem render_Authenticated_witness:
  "authenticationState (state (sample_mounted Authenticated (Some 3))) = Authenticated \<and>
   authenticatedFunction (props (sample_mounted Authenticated (Some 3))) =
     Some (\<lambda>a. JObject ''legacy'') \<and>
   truthy (JObject ''legacy'' :: (nat, string) jsval) \<and>
   render (sample_mounted Authenticated (Some 3)) =
     (JObject ''legacy'',
      [CallAuthenticatedFunction ThisLogout, ConsoleWarn authenticatedFunction_warning]) \<and>
   \<not> truthy (JStr [] :: (nat, string) jsval) \<and>
   render ((sample_mounted Authenticated (Some 3))
       \<lparr>props := (sample_props Authenticated (Some 3))
          \<lparr>authenticatedFunction := Some (\<lambda>a. JStr [])\<rparr>\<rparr>) =
     (JObject ''content'',
      [CallAuthenticatedFunction ThisLogout,
       CallChildren \<lparr>fp_login = AuthProviderLogin, fp_logout = AuthProviderLogout,
         fp_authenticationState = Authenticated, fp_accountInfo = Some 3\<rparr>]) \<and>
   render ((sample_mounted Authenticated (Some 3))
       \<lparr>props := (sample_props Authenticated (Some 3))\<lparr>authenticatedFunction := None\<rparr>\<rparr>) =
     (JObject ''content'',
      [CallChildren \<lparr>fp_login = AuthProviderLogin, fp_logout = AuthProviderLogout,
         fp_authenticationState = Authenticated, fp_accountInfo = Some 3\<rparr>])"
  using render_Authenticated
      [of "sample_mounted Authenticated (Some 3)" "\<lambda>a. JObject ''legacy''"]
    render_Authenticated
      [of "(sample_mounted Authenticated (Some 3))
         \<lparr>props := (sample_props Authenticated (Some 3))
            \<lparr>authenticatedFunction := Some (\<lambda>a. JStr [])\<rparr>\<rparr>" "\<lambda>a. JStr []"]
    render_Authenticated
      [of "(sample_mounted Authenticated (Some 3))
         \<lparr>props := (sample_props Authenticated (Some 3))\<lparr>authenticatedFunction := None\<rparr>\<rparr>"]
  by (simp add: sample_mounted_fields sample_props_def getChildrenOrFunction_def)

text \<open>
  C8. Rendering an \<open>Unauthenticated\<close> snapshot. A supplied \<open>unauthenticatedFunction\<close> is
  called with the component's \<open>login\<close> after one deprecation warning, and its result is
  returned, \<open>null\<close> in place of a falsy one; the children are not consulted. Only without
  such a function is the result that of \<open>getChildrenOrFunction\<close>.
\<close>

theorem render_Unauthenticated:
  fixes this :: "('a, 'e, 's) AzureAD"
  assumes "authenticationState (state this) = Unauthenticated"
  shows "(unauthenticatedFunction (props this) = Some f \<longrightarrow>
       render this =
         (if truthy (f ThisLogin) then f ThisLogin else JNull,
          [ConsoleWarn unauthenticatedFunction_warning, CallUnauthenticatedFunction ThisLogin])) \<and>
    (unauthenticatedFunction (props this) = None \<longrightarrow>
       render this =
         getChildrenOrFunction (children (props this))
           \<lparr>fp_login = AuthProviderLogin, fp_logout = AuthProviderLogout,
            fp_authenticationState = Unauthenticated,
            fp_accountInfo = accountInfo (state this)\<rparr>)"
  using assms by (simp add: render_def childrenFunctionProps_def)

theorem render_Unauthenticated_witness:
  "authenticationState (state (sample_mounted Unauthenticated None)) = Unauthenticated \<and>
   unauthenticatedFunction (props (sample_mounted Unauthenticated None)) =
     Some (\<lambda>a. JBool False) \<and>
   render (sample_mounted Unauthenticated None) =
     (JNull,
      [ConsoleWarn unauthenticatedFunction_warning, CallUnauthenticatedFunction ThisLogin]) \<and>
   render ((sample_mounted Unauthenticated None)
       \<lparr>props := (sample_props Unauthenticated None)\<lparr>unauthenticatedFunction := None\<rparr>\<rparr>) =
     (JObject ''content'',
      [CallChildren \<lparr>fp_login = AuthProviderLogin, fp_logout = AuthProviderLogout,
         fp_authenticationState = Unauthenticated, fp_accountInfo = None\<rparr>])"
  using render_Unauthenticated
      [of "sample_mounted Unauthenticated None" "\<lambda>a. JBool False"]
    render_Unauthenticated
      [of "(sample_mounted Unauthenticated None)
         \<lparr>props := (sample_props Unauthenticated None)\<lparr>unauthenticatedFunction := None\<rparr>\<rparr>"]
  by (simp add: sample_mounted_fields sample_props_def getChildrenOrFunction_def)

text \<open>
  C9. Rendering a snapshot whose authentication state is neither \<open>Authenticated\<close> nor
  \<open>Unauthenticated\<close> gives \<open>null\<close> and has no effect, whatever the props are.
\<close>

theorem render_other_state:
  assumes "authenticationState (state this) \<noteq> Authenticated"
    and "authenticationState (state this) \<noteq> Unauthenticated"
  shows "render this = (JNull, [])"
  using assms by (cases "authenticationState (state this)") (simp_all add: render_def)

theorem render_other_state_witness:
  "authenticationState (state (sample_mounted InProgress (Some 3))) \<noteq> Authenticated \<and>
   authenticationState (state (sample_mounted InProgress (Some 3))) \<noteq> Unauthenticated \<and>
   render (sample_mounted InProgress (Some 3)) = (JNull, [])"
  using render_other_state [of "sample_mounted InProgress (Some 3)"]
  by (simp add: sample_mounted_fields)

end
